theory Spec2Isabelle
  imports Complex_Main "HOL-Library.Word"
begin

section \<open>Data model of the watermark engine\<close>

text \<open>
  The embedding follows \<open>watermark_engine.cpp\<close> and \<open>watermark_engine.hpp\<close>.
  C++ \<open>int\<close> values are HOL integers: the detector and the transforms compute image
  dimensions plus or minus a constant of at most 160, and the guided search adds a corner
  and a side of the caller's rectangle and steps a scale that never exceeds an image
  dimension, so 32-bit overflow needs a rectangle no image can hold and is left out.
  \<open>double\<close> values are real numbers and double-precision arithmetic is exact. In
  \<open>detect_watermark\<close> every \<open>static_cast<float>\<close> and the constant \<open>0.35f\<close> round to
  single precision (\<open>to_float\<close> below), since the detected flag is decided by comparing
  two such values. In \<open>guided_detect\<close> every comparison is made on doubles, and the two
  casts that store the final confidence and raw correlation are left as the identity.
\<close>

datatype WatermarkSize = Small | Large

record WatermarkPosition =
  margin_right :: int
  margin_bottom :: int
  logo_size :: int

text \<open>\<open>cv::Point\<close> and \<open>cv::Rect\<close>; the fields carry a prefix because \<open>x\<close> and \<open>y\<close>
  would otherwise be constants.\<close>

record Point =
  pt_x :: int
  pt_y :: int

record Rect =
  rect_x :: int
  rect_y :: int
  rect_width :: int
  rect_height :: int

definition mk_point :: "int \<Rightarrow> int \<Rightarrow> Point" where
  "mk_point a b = \<lparr>pt_x = a, pt_y = b\<rparr>"

definition mk_rect :: "int \<Rightarrow> int \<Rightarrow> int \<Rightarrow> int \<Rightarrow> Rect" where
  "mk_rect a b w h = \<lparr>rect_x = a, rect_y = b, rect_width = w, rect_height = h\<rparr>"

text \<open>\<open>WatermarkPosition::get_position\<close>: the top-left corner, not clamped.\<close>

definition get_position :: "WatermarkPosition \<Rightarrow> int \<Rightarrow> int \<Rightarrow> Point" where
  "get_position config image_width image_height =
     mk_point (image_width - margin_right config - logo_size config)
              (image_height - margin_bottom config - logo_size config)"

definition get_watermark_config :: "int \<Rightarrow> int \<Rightarrow> WatermarkPosition" where
  "get_watermark_config image_width image_height =
     (if image_width > 1024 \<and> image_height > 1024
      then \<lparr>margin_right = 64, margin_bottom = 64, logo_size = 96\<rparr>
      else \<lparr>margin_right = 32, margin_bottom = 32, logo_size = 48\<rparr>)"

definition get_watermark_size :: "int \<Rightarrow> int \<Rightarrow> WatermarkSize" where
  "get_watermark_size image_width image_height =
     (if image_width > 1024 \<and> image_height > 1024 then Large else Small)"

subsection \<open>Matrices, the engine and the results\<close>

text \<open>
  \<open>cv::Mat\<close>: the dimensions, the channel count and the samples, one list of channel
  samples per pixel in row-major order. An image holds 8-bit samples, an alpha map holds
  opacities; \<open>Mat::empty\<close> is true when no samples are allocated or the matrix has no
  elements.
\<close>

record 'a Mat =
  cols :: int
  rows :: int
  channels :: int
  pixels :: "'a list list"

type_synonym image = "8 word Mat"
type_synonym alpha = "real Mat"

definition empty_mat :: "'a Mat \<Rightarrow> bool" where
  "empty_mat m = (pixels m = [] \<or> rows m * cols m = 0)"

datatype ColorConversion = COLOR_BGRA2BGR | COLOR_GRAY2BGR

text \<open>\<open>cv::cvtColor\<close> for the two conversions the engine asks for: the first drops the
  fourth channel of every pixel, the second repeats the single channel three times. The
  dimensions stay as they are.\<close>

fun cvtColor :: "ColorConversion \<Rightarrow> 'a Mat \<Rightarrow> 'a Mat" where
  "cvtColor COLOR_BGRA2BGR m = m\<lparr>channels := 3, pixels := map (take 3) (pixels m)\<rparr>"
| "cvtColor COLOR_GRAY2BGR m =
     m\<lparr>channels := 3, pixels := map (\<lambda>p. concat (map (replicate 3) p)) (pixels m)\<rparr>"

datatype Interpolation = INTER_LINEAR | INTER_AREA

text \<open>The field \<open>size\<close> of \<open>DetectionResult\<close> is \<open>wm_size\<close> here, and the field
  \<open>confidence\<close> of \<open>GuidedDetectionResult\<close> is \<open>g_confidence\<close>, since both names are taken.\<close>

record DetectionResult =
  detected :: bool
  confidence :: real
  region :: Rect
  wm_size :: WatermarkSize
  spatial_score :: real
  gradient_score :: real
  variance_score :: real

text \<open>Modelled from the spec: \<open>GuidedDetectionResult\<close>, whose declaration is in a header
  that is not among the sources. The fields are those of the specification's data model,
  under the names \<open>guided_detect\<close> assigns them by.\<close>

record GuidedDetectionResult =
  found :: bool
  g_confidence :: real
  raw_ncc :: real
  match_rect :: Rect
  detected_size :: int
  scales_searched :: int
  total_scales :: int
  was_cancelled :: bool

record Candidate =
  position :: Point
  scale :: int
  raw_score :: real
  adjusted_score :: real

record WatermarkEngine =
  alpha_map_small :: alpha
  alpha_map_large :: alpha
  logo_value :: real

datatype error = EmptyImage

text \<open>Modelled from the spec: \<open>remove_watermark_alpha_blend\<close> and
  \<open>add_watermark_alpha_blend\<close>, the in-place blend transforms of \<open>blend_modes.cpp\<close>, which
  is not among the sources. They take the image, the alpha map, the top-left position and
  the logo value and give the image back. They are total: by the specification the
  transform clamps the box to the image, guards its division and fails on an empty buffer
  only, which its callers here have excluded before the call.\<close>

record blend_ops =
  remove_watermark_alpha_blend :: "image \<Rightarrow> alpha \<Rightarrow> Point \<Rightarrow> real \<Rightarrow> image"
  add_watermark_alpha_blend :: "image \<Rightarrow> alpha \<Rightarrow> Point \<Rightarrow> real \<Rightarrow> image"

text \<open>
  What the engine obtains from OpenCV, taken as parameters next to the blends.
  \<^item> \<open>spatial_ncc img image_roi a alpha_roi\<close>: the maximum of
    \<open>matchTemplate(gray_f, alpha_region, TM_CCOEFF_NORMED)\<close>, where \<open>gray_f\<close> is the
    grayscale of \<open>img(image_roi)\<close> scaled to [0,1] and \<open>alpha_region\<close> is \<open>a(alpha_roi)\<close>.
  \<^item> \<open>gradient_ncc\<close>: the same maximum for the Sobel gradient magnitudes of the two.
  \<^item> \<open>gray_stddev img roi\<close>: the standard deviation \<open>meanStdDev\<close> reports for the
    grayscale of \<open>img(roi)\<close>.
  \<^item> \<open>resize a w h m\<close>: \<open>cv::resize\<close> of an alpha map to \<open>w\<close> by \<open>h\<close>.
  \<^item> \<open>match_best img search tmpl\<close>: the maximum and its location that \<open>minMaxLoc\<close>
    reports for \<open>matchTemplate\<close> of the grayscale of \<open>img(search)\<close> against \<open>tmpl\<close>.
\<close>

record cv_ops = blend_ops +
  spatial_ncc :: "image \<Rightarrow> Rect \<Rightarrow> alpha \<Rightarrow> Rect \<Rightarrow> real"
  gradient_ncc :: "image \<Rightarrow> Rect \<Rightarrow> alpha \<Rightarrow> Rect \<Rightarrow> real"
  gray_stddev :: "image \<Rightarrow> Rect \<Rightarrow> real"
  resize :: "alpha \<Rightarrow> int \<Rightarrow> int \<Rightarrow> Interpolation \<Rightarrow> alpha"
  match_best :: "image \<Rightarrow> Rect \<Rightarrow> alpha \<Rightarrow> real \<times> Point"

subsection \<open>Removal and addition at the standard position\<close>

definition get_alpha_map :: "WatermarkEngine \<Rightarrow> WatermarkSize \<Rightarrow> alpha" where
  "get_alpha_map eng sz = (if sz = Small then alpha_map_small eng else alpha_map_large eng)"

text \<open>The block "Ensure BGR format" that opens each of the four transforms.\<close>

definition ensure_bgr :: "image \<Rightarrow> image" where
  "ensure_bgr img =
     (if channels img = 4 then cvtColor COLOR_BGRA2BGR img
      else if channels img = 1 then cvtColor COLOR_GRAY2BGR img
      else img)"

text \<open>The position record \<open>remove_watermark\<close> and \<open>add_watermark\<close> build from the size
  actually used.\<close>

definition config_of_size :: "WatermarkSize \<Rightarrow> WatermarkPosition" where
  "config_of_size sz =
     (if sz = Small then \<lparr>margin_right = 32, margin_bottom = 32, logo_size = 48\<rparr>
      else \<lparr>margin_right = 64, margin_bottom = 64, logo_size = 96\<rparr>)"

definition remove_watermark ::
  "cv_ops \<Rightarrow> WatermarkEngine \<Rightarrow> image \<Rightarrow> WatermarkSize option \<Rightarrow> error + image" where
  "remove_watermark ops eng img force_size =
     (if empty_mat img then Inl EmptyImage
      else
        let img1 = ensure_bgr img;
            sz = (case force_size of Some s \<Rightarrow> s
                  | None \<Rightarrow> get_watermark_size (cols img1) (rows img1));
            config = config_of_size sz;
            pos = get_position config (cols img1) (rows img1);
            alpha_map = get_alpha_map eng sz
        in Inr (remove_watermark_alpha_blend ops img1 alpha_map pos (logo_value eng)))"

definition add_watermark ::
  "cv_ops \<Rightarrow> WatermarkEngine \<Rightarrow> image \<Rightarrow> WatermarkSize option \<Rightarrow> error + image" where
  "add_watermark ops eng img force_size =
     (if empty_mat img then Inl EmptyImage
      else
        let img1 = ensure_bgr img;
            sz = (case force_size of Some s \<Rightarrow> s
                  | None \<Rightarrow> get_watermark_size (cols img1) (rows img1));
            config = config_of_size sz;
            pos = get_position config (cols img1) (rows img1);
            alpha_map = get_alpha_map eng sz
        in Inr (add_watermark_alpha_blend ops img1 alpha_map pos (logo_value eng)))"

subsection \<open>Single precision\<close>

text \<open>
  The conversion of a double to \<open>float\<close>: IEEE 754 binary32, round to nearest, ties to
  even. The magnitude is brought to \<open>m * u\<close> with \<open>u\<close> a power of two and \<open>1 \<le> m < 2\<close>
  (or \<open>m < 1\<close> and \<open>u = 2^-126\<close> for a subnormal), then \<open>m\<close> is rounded to 23 fractional
  bits. Magnitudes from \<open>2^128\<close> on, which the conversion turns into infinity, are rounded
  as if the exponent range went on; the detector converts correlation coefficients and
  values clamped to [0,1] only.
\<close>

definition round_half_even :: "real \<Rightarrow> int" where
  "round_half_even y =
     (let f = \<lfloor>y\<rfloor>; r = y - of_int f
      in if r < 1 / 2 then f else if 1 / 2 < r then f + 1 else if even f then f else f + 1)"

function scale_down :: "real \<Rightarrow> real \<Rightarrow> real \<times> real" where
  "scale_down m u = (if 2 \<le> m then scale_down (m / 2) (u * 2) else (m, u))"
  by pat_completeness auto
termination
proof (relation "measure (\<lambda>(m, u). nat \<lceil>m\<rceil>)")
  show "wf (measure (\<lambda>(m, u). nat \<lceil>m\<rceil>))" by simp
next
  fix m u :: real
  assume "2 \<le> m"
  then have "m / 2 \<le> m - 1" by simp
  then have "\<lceil>m / 2\<rceil> \<le> \<lceil>m - 1\<rceil>" by (rule ceiling_mono)
  moreover have "0 < \<lceil>m\<rceil>" using \<open>2 \<le> m\<close> by (simp add: ceiling_less_iff less_ceiling_iff)
  ultimately show "((m / 2, u * 2), (m, u)) \<in> measure (\<lambda>(m, u). nat \<lceil>m\<rceil>)"
    by simp
qed

fun scale_up :: "nat \<Rightarrow> real \<Rightarrow> real \<Rightarrow> real \<times> real" where
  "scale_up 0 m u = (m, u)"
| "scale_up (Suc k) m u = (if m < 1 then scale_up k (m * 2) (u / 2) else (m, u))"

definition to_float :: "real \<Rightarrow> real" where
  "to_float x =
     (if x = 0 then 0
      else
        let (m, u) = scale_down \<bar>x\<bar> 1;
            (m, u) = scale_up 126 m u;
            q = round_half_even (m * 2 ^ 23)
        in sgn x * (of_int q * u / 2 ^ 23))"

subsection \<open>The three-stage detector\<close>

text \<open>\<open>std::clamp(v, lo, hi)\<close>.\<close>

definition clamp :: "real \<Rightarrow> real \<Rightarrow> real \<Rightarrow> real" where
  "clamp v lo hi = (if v < lo then lo else if hi < v then hi else v)"

text \<open>\<open>DetectionResult result{}\<close> followed by the five explicit assignments: every field
  is zero, the size is the first enumerator.\<close>

definition default_result :: DetectionResult where
  "default_result =
     \<lparr>detected = False, confidence = 0, region = mk_rect 0 0 0 0, wm_size = Small,
      spatial_score = 0, gradient_score = 0, variance_score = 0\<rparr>"

text \<open>The local constants of \<open>detect_watermark\<close>, one definition each, in the order of
  the source: \<open>size\<close> (the forced size, else the size of the image dimensions), \<open>pos\<close>
  (from \<open>get_watermark_config\<close> of the image dimensions), \<open>alpha_map\<close>, the corners
  \<open>x1, y1, x2, y2\<close> of the clamped box, the test "ROI out of bounds", \<open>image_roi\<close>,
  \<open>alpha_roi\<close>, \<open>ref_h\<close> and \<open>ref_roi\<close>.\<close>

definition detect_size :: "image \<Rightarrow> WatermarkSize option \<Rightarrow> WatermarkSize" where
  "detect_size img force_size =
     (case force_size of Some s \<Rightarrow> s | None \<Rightarrow> get_watermark_size (cols img) (rows img))"

definition detect_pos :: "image \<Rightarrow> Point" where
  "detect_pos img =
     get_position (get_watermark_config (cols img) (rows img)) (cols img) (rows img)"

definition detect_alpha :: "WatermarkEngine \<Rightarrow> image \<Rightarrow> WatermarkSize option \<Rightarrow> alpha" where
  "detect_alpha eng img force_size = get_alpha_map eng (detect_size img force_size)"

definition roi_x1 :: "image \<Rightarrow> int" where
  "roi_x1 img = max 0 (pt_x (detect_pos img))"

definition roi_y1 :: "image \<Rightarrow> int" where
  "roi_y1 img = max 0 (pt_y (detect_pos img))"

definition roi_x2 :: "WatermarkEngine \<Rightarrow> image \<Rightarrow> WatermarkSize option \<Rightarrow> int" where
  "roi_x2 eng img force_size =
     min (cols img) (pt_x (detect_pos img) + cols (detect_alpha eng img force_size))"

definition roi_y2 :: "WatermarkEngine \<Rightarrow> image \<Rightarrow> WatermarkSize option \<Rightarrow> int" where
  "roi_y2 eng img force_size =
     min (rows img) (pt_y (detect_pos img) + rows (detect_alpha eng img force_size))"

definition roi_out_of_bounds :: "WatermarkEngine \<Rightarrow> image \<Rightarrow> WatermarkSize option \<Rightarrow> bool" where
  "roi_out_of_bounds eng img force_size =
     (roi_x1 img \<ge> roi_x2 eng img force_size \<or> roi_y1 img \<ge> roi_y2 eng img force_size)"

definition image_roi :: "WatermarkEngine \<Rightarrow> image \<Rightarrow> WatermarkSize option \<Rightarrow> Rect" where
  "image_roi eng img force_size =
     mk_rect (roi_x1 img) (roi_y1 img) (roi_x2 eng img force_size - roi_x1 img)
             (roi_y2 eng img force_size - roi_y1 img)"

definition alpha_roi :: "WatermarkEngine \<Rightarrow> image \<Rightarrow> WatermarkSize option \<Rightarrow> Rect" where
  "alpha_roi eng img force_size =
     mk_rect (roi_x1 img - pt_x (detect_pos img)) (roi_y1 img - pt_y (detect_pos img))
             (roi_x2 eng img force_size - roi_x1 img)
             (roi_y2 eng img force_size - roi_y1 img)"

definition ref_h :: "image \<Rightarrow> int" where
  "ref_h img = min (roi_y1 img) (logo_size (get_watermark_config (cols img) (rows img)))"

definition ref_roi :: "WatermarkEngine \<Rightarrow> image \<Rightarrow> WatermarkSize option \<Rightarrow> Rect" where
  "ref_roi eng img force_size =
     mk_rect (roi_x1 img) (roi_y1 img - ref_h img)
             (roi_x2 eng img force_size - roi_x1 img) (ref_h img)"

text \<open>Stage 1 and stage 2: the two correlation maxima.\<close>

definition stage_spatial ::
  "cv_ops \<Rightarrow> WatermarkEngine \<Rightarrow> image \<Rightarrow> WatermarkSize option \<Rightarrow> real" where
  "stage_spatial ops eng img force_size =
     spatial_ncc ops img (image_roi eng img force_size) (detect_alpha eng img force_size)
       (alpha_roi eng img force_size)"

definition stage_gradient ::
  "cv_ops \<Rightarrow> WatermarkEngine \<Rightarrow> image \<Rightarrow> WatermarkSize option \<Rightarrow> real" where
  "stage_gradient ops eng img force_size =
     gradient_ncc ops img (image_roi eng img force_size) (detect_alpha eng img force_size)
       (alpha_roi eng img force_size)"

text \<open>Stage 3, the value of \<open>var_score\<close> after the block guarded by \<open>ref_h > 8\<close>.\<close>

definition stage_variance ::
  "cv_ops \<Rightarrow> WatermarkEngine \<Rightarrow> image \<Rightarrow> WatermarkSize option \<Rightarrow> real" where
  "stage_variance ops eng img force_size =
     (if ref_h img > 8 then
        let s_wm = gray_stddev ops img (image_roi eng img force_size);
            s_ref = gray_stddev ops img (ref_roi eng img force_size)
        in if s_ref > 5.0 then clamp (1.0 - s_wm / s_ref) 0.0 1.0 else 0.0
      else 0.0)"

text \<open>The function itself. The stage scores are doubles; each is stored in the result
  through \<open>static_cast<float>\<close>, and the stored confidence is compared with
  \<open>kDetectionThreshold = 0.35f\<close>.\<close>

definition detect_watermark ::
  "cv_ops \<Rightarrow> WatermarkEngine \<Rightarrow> image \<Rightarrow> WatermarkSize option \<Rightarrow> DetectionResult" where
  "detect_watermark ops eng img force_size =
     (let result = default_result in
      if empty_mat img then result
      else
        let result = result\<lparr>wm_size := detect_size img force_size,
                       region := mk_rect (pt_x (detect_pos img)) (pt_y (detect_pos img))
                                         (cols (detect_alpha eng img force_size))
                                         (rows (detect_alpha eng img force_size))\<rparr>
        in
        if roi_out_of_bounds eng img force_size then result
        else
          let spatial = stage_spatial ops eng img force_size;
              result = result\<lparr>spatial_score := to_float spatial\<rparr>
          in
          if spatial < 0.25 then result\<lparr>confidence := to_float (spatial * 0.5)\<rparr>
          else
            let grad = stage_gradient ops eng img force_size;
                result = result\<lparr>gradient_score := to_float grad\<rparr>;
                var_score = stage_variance ops eng img force_size;
                result = result\<lparr>variance_score := to_float var_score\<rparr>;
                conf = spatial * 0.50 + grad * 0.30 + var_score * 0.20;
                result = result\<lparr>confidence := to_float (clamp conf 0.0 1.0)\<rparr>
            in result\<lparr>detected := (confidence result \<ge> to_float 0.35)\<rparr>)"

subsection \<open>Removal and addition in a custom region\<close>

definition create_interpolated_alpha ::
  "cv_ops \<Rightarrow> WatermarkEngine \<Rightarrow> int \<Rightarrow> int \<Rightarrow> alpha" where
  "create_interpolated_alpha ops eng target_width target_height =
     (let source = alpha_map_large eng in
      if target_width = cols source \<and> target_height = rows source then source
      else
        let interp_method =
              (if target_width > cols source \<or> target_height > rows source
               then INTER_LINEAR else INTER_AREA)
        in resize ops source target_width target_height interp_method)"

definition remove_watermark_custom ::
  "cv_ops \<Rightarrow> WatermarkEngine \<Rightarrow> image \<Rightarrow> Rect \<Rightarrow> error + image" where
  "remove_watermark_custom ops eng img rgn =
     (if empty_mat img then Inl EmptyImage
      else
        let img1 = ensure_bgr img in
        if rect_width rgn = 48 \<and> rect_height rgn = 48 then
          Inr (remove_watermark_alpha_blend ops img1 (alpha_map_small eng)
                 (mk_point (rect_x rgn) (rect_y rgn)) (logo_value eng))
        else if rect_width rgn = 96 \<and> rect_height rgn = 96 then
          Inr (remove_watermark_alpha_blend ops img1 (alpha_map_large eng)
                 (mk_point (rect_x rgn) (rect_y rgn)) (logo_value eng))
        else
          let custom_alpha = create_interpolated_alpha ops eng (rect_width rgn) (rect_height rgn);
              pos = mk_point (rect_x rgn) (rect_y rgn)
          in Inr (remove_watermark_alpha_blend ops img1 custom_alpha pos (logo_value eng)))"

definition add_watermark_custom ::
  "cv_ops \<Rightarrow> WatermarkEngine \<Rightarrow> image \<Rightarrow> Rect \<Rightarrow> error + image" where
  "add_watermark_custom ops eng img rgn =
     (if empty_mat img then Inl EmptyImage
      else
        let img1 = ensure_bgr img in
        if rect_width rgn = 48 \<and> rect_height rgn = 48 then
          Inr (add_watermark_alpha_blend ops img1 (alpha_map_small eng)
                 (mk_point (rect_x rgn) (rect_y rgn)) (logo_value eng))
        else if rect_width rgn = 96 \<and> rect_height rgn = 96 then
          Inr (add_watermark_alpha_blend ops img1 (alpha_map_large eng)
                 (mk_point (rect_x rgn) (rect_y rgn)) (logo_value eng))
        else
          let custom_alpha = create_interpolated_alpha ops eng (rect_width rgn) (rect_height rgn);
              pos = mk_point (rect_x rgn) (rect_y rgn)
          in Inr (add_watermark_alpha_blend ops img1 custom_alpha pos (logo_value eng)))"

subsection \<open>The guided multi-scale search\<close>

text \<open>\<open>operator&\<close> of \<open>cv::Rect\<close>: the intersection, the all-zero rectangle when it is
  empty.\<close>

definition rect_intersect :: "Rect \<Rightarrow> Rect \<Rightarrow> Rect" where
  "rect_intersect a b =
     (let x1 = max (rect_x a) (rect_x b);
          y1 = max (rect_y a) (rect_y b);
          w = min (rect_x a + rect_width a) (rect_x b + rect_width b) - x1;
          h = min (rect_y a + rect_height a) (rect_y b + rect_height b) - y1
      in if w \<le> 0 \<or> h \<le> 0 then mk_rect 0 0 0 0 else mk_rect x1 y1 w h)"

text \<open>The lambda \<open>size_adjusted_score\<close>, with \<open>kReferenceSize = 96\<close>. It is only called
  with scales of at least 16, where the square root is the C++ one.\<close>

definition size_adjusted_score :: "real \<Rightarrow> int \<Rightarrow> real" where
  "size_adjusted_score raw scl =
     (let weight = sqrt (real_of_int scl / 96.0);
          weight = min weight 1.0
      in raw * weight)"

text \<open>Modelled from the spec: the value of \<open>GuidedDetectionResult result{}\<close>. With the
  declaration missing, every field is taken to start at false or zero.\<close>

definition default_guided :: GuidedDetectionResult where
  "default_guided =
     \<lparr>found = False, g_confidence = 0, raw_ncc = 0, match_rect = mk_rect 0 0 0 0,
      detected_size = 0, scales_searched = 0, total_scales = 0, was_cancelled = False\<rparr>"

text \<open>The cancellation flag is a pointer to an atomic that another thread may write:
  \<open>None\<close> is the null pointer, and \<open>Some f\<close> is a flag whose \<open>n\<close>-th load during the call
  reads \<open>f n\<close>. The test \<open>cancel_flag && cancel_flag->load()\<close>:\<close>

definition cancel_requested :: "(nat \<Rightarrow> bool) option \<Rightarrow> nat \<Rightarrow> bool" where
  "cancel_requested cancel_flag n = (case cancel_flag of None \<Rightarrow> False | Some f \<Rightarrow> f n)"

text \<open>The first loop of "Generate scale list": \<open>for (s = min_size; s <= max_size; s += 8)\<close>.\<close>

function coarse_scale_list :: "int \<Rightarrow> int \<Rightarrow> int list" where
  "coarse_scale_list s max_size =
     (if s \<le> max_size then s # coarse_scale_list (s + 8) max_size else [])"
  by pat_completeness auto
termination
  by (relation "measure (\<lambda>(s, max_size). nat (max_size - s + 1))") auto

text \<open>One round of the loop over the standard sizes 48 and 96.\<close>

definition add_std_size :: "int \<Rightarrow> int \<Rightarrow> int \<Rightarrow> int list \<Rightarrow> int list" where
  "add_std_size min_size max_size std_size coarse_scales =
     (if std_size \<ge> min_size \<and> std_size \<le> max_size then
        (if list_ex (\<lambda>s. \<bar>s - std_size\<bar> \<le> 2) coarse_scales then coarse_scales
         else coarse_scales @ [std_size])
      else coarse_scales)"

definition make_coarse_scales :: "int \<Rightarrow> int \<Rightarrow> int list" where
  "make_coarse_scales min_size max_size =
     sort (add_std_size min_size max_size 96
             (add_std_size min_size max_size 48 (coarse_scale_list min_size max_size)))"

text \<open>\<open>std::sort\<close> of the candidates by descending adjusted score. The C++ sort leaves the
  order of equal scores open; this one keeps them in their order.\<close>

definition sort_candidates :: "Candidate list \<Rightarrow> Candidate list" where
  "sort_candidates cs = sort_key (\<lambda>c. - adjusted_score c) cs"

text \<open>"Insert into sorted top-K by adjusted score", with \<open>kTopK = 5\<close>.\<close>

definition insert_top_k :: "Candidate \<Rightarrow> Candidate list \<Rightarrow> Candidate list" where
  "insert_top_k c coarse_candidates =
     (if int (length coarse_candidates) < 5 then sort_candidates (coarse_candidates @ [c])
      else if adjusted_score c > adjusted_score (last coarse_candidates)
      then sort_candidates (butlast coarse_candidates @ [c])
      else coarse_candidates)"

text \<open>Phase 1, the loop over the coarse scales. The state is the result under
  construction, the candidates kept so far and the number of loads of the flag made so
  far; \<open>gray_f\<close> has the size of the clamped search rectangle.\<close>

fun coarse_search ::
  "cv_ops \<Rightarrow> image \<Rightarrow> Rect \<Rightarrow> alpha \<Rightarrow> (nat \<Rightarrow> bool) option \<Rightarrow> int list
   \<Rightarrow> GuidedDetectionResult \<times> Candidate list \<times> nat
   \<Rightarrow> GuidedDetectionResult \<times> Candidate list \<times> nat" where
  "coarse_search ops img search source_alpha cancel_flag [] st = st"
| "coarse_search ops img search source_alpha cancel_flag (scl # rest) (result, cands, n) =
     (if cancel_requested cancel_flag n
      then (result\<lparr>was_cancelled := True\<rparr>, cands, Suc n)
      else if scl > rect_width search \<or> scl > rect_height search
      then coarse_search ops img search source_alpha cancel_flag rest
             (result\<lparr>scales_searched := scales_searched result + 1\<rparr>, cands, Suc n)
      else
        let tmpl = resize ops source_alpha scl scl
                     (if scl > cols source_alpha then INTER_LINEAR else INTER_AREA);
            (max_val, max_loc) = match_best ops img search tmpl;
            result = result\<lparr>scales_searched := scales_searched result + 1\<rparr>;
            adj = size_adjusted_score max_val scl
        in coarse_search ops img search source_alpha cancel_flag rest
             (result,
              (if adj > 0.08
               then insert_top_k \<lparr>position = max_loc, scale = scl, raw_score = max_val,
                                   adjusted_score = adj\<rparr> cands
               else cands),
              Suc n))"

text \<open>Phase 2, the inner loop \<open>for (s = scale_lo; s <= scale_hi; s += 2)\<close>.\<close>

function fine_scan ::
  "cv_ops \<Rightarrow> image \<Rightarrow> Rect \<Rightarrow> alpha \<Rightarrow> int \<Rightarrow> int \<Rightarrow> Candidate \<Rightarrow> Candidate" where
  "fine_scan ops img search source_alpha s scale_hi best =
     (if s \<le> scale_hi then
        (if s > rect_width search \<or> s > rect_height search
         then fine_scan ops img search source_alpha (s + 2) scale_hi best
         else
           let tmpl = resize ops source_alpha s s
                        (if s > cols source_alpha then INTER_LINEAR else INTER_AREA);
               (max_val, max_loc) = match_best ops img search tmpl;
               adj = size_adjusted_score max_val s
           in fine_scan ops img search source_alpha (s + 2) scale_hi
                (if adj > adjusted_score best
                 then \<lparr>position = max_loc, scale = s, raw_score = max_val,
                       adjusted_score = adj\<rparr>
                 else best))
      else best)"
  by pat_completeness auto
termination
  by (relation "measure (\<lambda>(ops, img, search, source_alpha, s, scale_hi, best).
                           nat (scale_hi - s + 1))") auto

text \<open>Phase 2, the loop over the coarse candidates, with \<open>kFineScaleRange = 10\<close>.\<close>

fun fine_search ::
  "cv_ops \<Rightarrow> image \<Rightarrow> Rect \<Rightarrow> alpha \<Rightarrow> (nat \<Rightarrow> bool) option \<Rightarrow> int \<Rightarrow> int
   \<Rightarrow> Candidate list \<Rightarrow> GuidedDetectionResult \<times> Candidate \<times> nat
   \<Rightarrow> GuidedDetectionResult \<times> Candidate \<times> nat" where
  "fine_search ops img search source_alpha cancel_flag min_size max_size [] st = st"
| "fine_search ops img search source_alpha cancel_flag min_size max_size (candidate # rest)
     (result, best, n) =
     (if cancel_requested cancel_flag n
      then (result\<lparr>was_cancelled := True\<rparr>, best, Suc n)
      else
        let scale_lo = max min_size (scale candidate - 10);
            scale_hi = min max_size (scale candidate + 10)
        in fine_search ops img search source_alpha cancel_flag min_size max_size rest
             (result, fine_scan ops img search source_alpha scale_lo scale_hi best, Suc n))"

definition guided_detect ::
  "cv_ops \<Rightarrow> WatermarkEngine \<Rightarrow> image \<Rightarrow> Rect \<Rightarrow> (nat \<Rightarrow> bool) option \<Rightarrow> int \<Rightarrow> int
   \<Rightarrow> GuidedDetectionResult" where
  "guided_detect ops eng img search_rect cancel_flag min_size0 max_size0 =
     (let result = default_guided in
      if empty_mat img \<or> rect_width search_rect < 8 \<or> rect_height search_rect < 8 then result
      else
        let search = rect_intersect search_rect (mk_rect 0 0 (cols img) (rows img)) in
        if rect_width search < 8 \<or> rect_height search < 8 then result
        else
          let min_size = max min_size0 16;
              max_size = min max_size0 (min (rect_width search) (rect_height search))
          in
          if min_size > max_size then result
          else
            let source_alpha = alpha_map_large eng;
                coarse_scales = make_coarse_scales min_size max_size;
                result = result\<lparr>total_scales := int (length coarse_scales)\<rparr>;
                (result, coarse_candidates, n) =
                  coarse_search ops img search source_alpha cancel_flag coarse_scales
                    (result, [], 0)
            in
            if coarse_candidates = [] then result
            else
              let best0 = \<lparr>position = mk_point 0 0, scale = 0, raw_score = - 1,
                           adjusted_score = - 1\<rparr>;
                  (result, best, n) =
                    fine_search ops img search source_alpha cancel_flag min_size max_size
                      coarse_candidates (result, best0, n)
              in
              if adjusted_score best > 0.08 then
                result\<lparr>found := True,
                       g_confidence := adjusted_score best,
                       raw_ncc := raw_score best,
                       match_rect := mk_rect (rect_x search + pt_x (position best))
                                             (rect_y search + pt_y (position best))
                                             (scale best) (scale best),
                       detected_size := scale best\<rparr>
              else result)"



text \<open>The three early returns of \<open>guided_detect\<close>, negated: the image is not empty, the
  search rectangle and its intersection with the image are at least 8 by 8, and the size
  range is not inverted after clamping.\<close>

definition search_possible :: "image \<Rightarrow> Rect \<Rightarrow> int \<Rightarrow> int \<Rightarrow> bool" where
  "search_possible img search_rect min_size0 max_size0 =
     (let search = rect_intersect search_rect (mk_rect 0 0 (cols img) (rows img))
      in \<not> (empty_mat img \<or> rect_width search_rect < 8 \<or> rect_height search_rect < 8)
         \<and> \<not> (rect_width search < 8 \<or> rect_height search < 8)
         \<and> \<not> (max min_size0 16 > min max_size0 (min (rect_width search) (rect_height search))))"

subsection \<open>Concrete inputs\<close>

text \<open>An engine with flat alpha maps of the two standard sizes, a mid-grey three-channel
  image of any size, and stand-ins for the outside operations with chosen answers: the two
  correlation maxima, the standard deviation as a function of the rectangle (one value for
  rectangles that start above a given row, another below), and the template-matching
  maximum as a function of the template side (\<open>example_ncc\<close>: 0.30 at side 96, 0.58 at
  side 24, nothing elsewhere). The stand-in blends stamp
  the position and the side of the alpha map into the first pixel.\<close>

definition example_alpha :: "int \<Rightarrow> alpha" where
  "example_alpha n = \<lparr>cols = n, rows = n, channels = 1, pixels = replicate (nat (n * n)) [1 / 2]\<rparr>"

definition example_engine :: WatermarkEngine where
  "example_engine =
     \<lparr>alpha_map_small = example_alpha 48, alpha_map_large = example_alpha 96, logo_value = 255\<rparr>"

definition example_image :: "int \<Rightarrow> int \<Rightarrow> image" where
  "example_image w h =
     \<lparr>cols = w, rows = h, channels = 3, pixels = replicate (nat (w * h)) [128, 128, 128]\<rparr>"

definition example_blend :: "image \<Rightarrow> alpha \<Rightarrow> Point \<Rightarrow> real \<Rightarrow> image" where
  "example_blend img a pos lv =
     img\<lparr>pixels := [word_of_int (pt_x pos), word_of_int (pt_y pos), word_of_int (cols a)]
                     # tl (pixels img)\<rparr>"

definition example_stddev :: "int \<Rightarrow> real \<Rightarrow> real \<Rightarrow> Rect \<Rightarrow> real" where
  "example_stddev y0 sd_above sd_below r = (if rect_y r < y0 then sd_above else sd_below)"

definition example_ncc :: "int \<Rightarrow> real" where
  "example_ncc n = (if n = 96 then 0.30 else if n = 24 then 0.58 else 0)"

definition example_ops :: "real \<Rightarrow> real \<Rightarrow> (Rect \<Rightarrow> real) \<Rightarrow> (int \<Rightarrow> real) \<Rightarrow> cv_ops" where
  "example_ops s g sd ncc =
     \<lparr>remove_watermark_alpha_blend = example_blend,
      add_watermark_alpha_blend = example_blend,
      spatial_ncc = (\<lambda>img r a ar. s),
      gradient_ncc = (\<lambda>img r a ar. g),
      gray_stddev = (\<lambda>img r. sd r),
      resize = (\<lambda>a w h m. example_alpha w),
      match_best = (\<lambda>img r tmpl. (ncc (cols tmpl), mk_point 0 0))\<rparr>"

section \<open>Unfolding rules\<close>

text \<open>The two counting loops are unfolded one step at a time, under their guard.\<close>

declare coarse_scale_list.simps [simp del]

declare fine_scan.simps [simp del]

lemmas example_defs = example_image_def example_engine_def example_alpha_def example_ops_def
  example_blend_def example_stddev_def example_ncc_def

lemmas roi_defs = detect_size_def detect_pos_def detect_alpha_def roi_x1_def roi_y1_def
  roi_x2_def roi_y2_def roi_out_of_bounds_def image_roi_def alpha_roi_def ref_h_def ref_roi_def
  get_alpha_map_def get_watermark_size_def get_watermark_config_def get_position_def
  mk_point_def mk_rect_def

declare scale_down.simps [simp del]







text \<open>The "Ensure BGR format" block leaves the dimensions alone.\<close>

lemma ensure_bgr_dims: "cols (ensure_bgr img) = cols img" "rows (ensure_bgr img) = rows img"
  by (simp_all add: ensure_bgr_def)

section \<open>Facts about the guided search\<close>

lemma coarse_scale_list_step:
  "s \<le> max_size \<Longrightarrow> coarse_scale_list s max_size = s # coarse_scale_list (s + 8) max_size"
  by (subst coarse_scale_list.simps) simp

lemma coarse_scale_list_stop:
  "\<not> s \<le> max_size \<Longrightarrow> coarse_scale_list s max_size = []"
  by (subst coarse_scale_list.simps) simp

lemma add_std_size_nonempty: "xs \<noteq> [] \<Longrightarrow> add_std_size mn mx sz xs \<noteq> []"
  by (simp add: add_std_size_def)

lemma make_coarse_scales_nonempty:
  assumes "min_size \<le> max_size"
  shows "make_coarse_scales min_size max_size \<noteq> []"
proof -
  have "coarse_scale_list min_size max_size \<noteq> []"
    using assms by (simp add: coarse_scale_list_step)
  then have "add_std_size min_size max_size 96
               (add_std_size min_size max_size 48 (coarse_scale_list min_size max_size)) \<noteq> []"
    by (intro add_std_size_nonempty)
  then have "length (make_coarse_scales min_size max_size) \<noteq> 0"
    unfolding make_coarse_scales_def length_sort by simp
  then show ?thesis by simp
qed

lemma coarse_search_cancel:
  assumes "k < length scales" and "\<forall>j<k. \<not> f (n + j)" and "f (n + k)"
  shows "\<exists>res' cands' n'.
           coarse_search ops img search src (Some f) scales (res, cands, n) = (res', cands', n')
           \<and> was_cancelled res' \<and> scales_searched res' = scales_searched res + int k
           \<and> total_scales res' = total_scales res \<and> found res' = found res
           \<and> (k = 0 \<longrightarrow> cands' = cands \<and> res' = res\<lparr>was_cancelled := True\<rparr>)"
  using assms
proof (induction scales arbitrary: k res cands n)
  case Nil
  then show ?case by simp
next
  case (Cons scl rest)
  show ?case
  proof (cases k)
    case 0
    with Cons.prems show ?thesis by (simp add: cancel_requested_def)
  next
    case (Suc k')
    from Cons.prems Suc have nf: "\<not> f n" by (metis add.right_neutral zero_less_Suc)
    have len: "k' < length rest" using Cons.prems Suc by simp
    have pre: "\<forall>j<k'. \<not> f (Suc n + j)" using Cons.prems(2) Suc by (metis Suc_less_eq add_Suc_shift)
    have hit: "f (Suc n + k')" using Cons.prems(3) Suc by simp
    note ih = Cons.IH [OF len pre hit]
    show ?thesis
    proof (cases "scl > rect_width search \<or> scl > rect_height search")
      case True
      from ih [of "res\<lparr>scales_searched := scales_searched res + 1\<rparr>" cands]
      show ?thesis using nf True Suc by (auto simp: cancel_requested_def)
    next
      case False
      obtain max_val max_loc where mb:
        "match_best ops img search (resize ops src scl scl
            (if scl > cols src then INTER_LINEAR else INTER_AREA)) = (max_val, max_loc)"
        by (cases "match_best ops img search (resize ops src scl scl
            (if scl > cols src then INTER_LINEAR else INTER_AREA))") 
      from ih [of "res\<lparr>scales_searched := scales_searched res + 1\<rparr>"
                 "if size_adjusted_score max_val scl > 0.08
                  then insert_top_k \<lparr>position = max_loc, scale = scl, raw_score = max_val,
                         adjusted_score = size_adjusted_score max_val scl\<rparr> cands
                  else cands"]
      show ?thesis using nf False Suc mb by (auto simp: cancel_requested_def Let_def)
    qed
  qed
qed

lemma fine_search_preserves:
  "\<exists>res' best' n'.
     fine_search ops img search src flag mn mx cs (res, best, n) = (res', best', n')
     \<and> scales_searched res' = scales_searched res \<and> total_scales res' = total_scales res
     \<and> found res' = found res \<and> (was_cancelled res \<longrightarrow> was_cancelled res')"
proof (induction cs arbitrary: res best n)
  case Nil
  then show ?case by simp
next
  case (Cons c cs)
  show ?case
    using Cons.IH [of res "fine_scan ops img search src (max mn (scale c - 10))
                             (min mx (scale c + 10)) best" "Suc n"]
    by (auto simp: Let_def)
qed

lemma coarse_search_total:
  "total_scales (fst (coarse_search ops img search src flag scales st)) = total_scales (fst st)"
  by (induction ops img search src flag scales st rule: coarse_search.induct)
     (auto simp: Let_def split: prod.splits)

lemma guided_detect_possible:
  assumes "search_possible img search_rect min_size0 max_size0"
  shows "guided_detect ops eng img search_rect flag min_size0 max_size0 =
     (let search = rect_intersect search_rect (mk_rect 0 0 (cols img) (rows img));
          min_size = max min_size0 16;
          max_size = min max_size0 (min (rect_width search) (rect_height search));
          coarse_scales = make_coarse_scales min_size max_size
      in case coarse_search ops img search (alpha_map_large eng) flag coarse_scales
                (default_guided\<lparr>total_scales := int (length coarse_scales)\<rparr>, [], 0) of
           (result, coarse_candidates, n) \<Rightarrow>
             if coarse_candidates = [] then result
             else
               (case fine_search ops img search (alpha_map_large eng) flag min_size max_size
                       coarse_candidates
                       (result, \<lparr>position = mk_point 0 0, scale = 0, raw_score = - 1,
                                  adjusted_score = - 1\<rparr>, n) of
                  (result, best, n) \<Rightarrow>
                    if adjusted_score best > 0.08 then
                      result\<lparr>found := True,
                             g_confidence := adjusted_score best,
                             raw_ncc := raw_score best,
                             match_rect := mk_rect (rect_x search + pt_x (position best))
                                                   (rect_y search + pt_y (position best))
                                                   (scale best) (scale best),
                             detected_size := scale best\<rparr>
                    else result))"
  using assms
  apply (simp only: guided_detect_def search_possible_def Let_def)
  apply (simp only: if_False simp_thms not_less not_le de_Morgan_disj)
  done

lemma fine_scan_stop:
  "\<not> s \<le> scale_hi \<Longrightarrow> fine_scan ops img search src s scale_hi best = best"
  by (subst fine_scan.simps) simp

lemma fine_scan_skip:
  "s \<le> scale_hi \<Longrightarrow> s > rect_width search \<or> s > rect_height search \<Longrightarrow>
   fine_scan ops img search src s scale_hi best
     = fine_scan ops img search src (s + 2) scale_hi best"
  by (subst fine_scan.simps) simp

lemma fine_scan_step:
  "s \<le> scale_hi \<Longrightarrow> \<not> (s > rect_width search \<or> s > rect_height search) \<Longrightarrow>
   fine_scan ops img search src s scale_hi best
     = (let tmpl = resize ops src s s (if s > cols src then INTER_LINEAR else INTER_AREA);
            (max_val, max_loc) = match_best ops img search tmpl;
            adj = size_adjusted_score max_val s
        in fine_scan ops img search src (s + 2) scale_hi
             (if adj > adjusted_score best
              then \<lparr>position = max_loc, scale = s, raw_score = max_val, adjusted_score = adj\<rparr>
              else best))"
  by (subst fine_scan.simps) simp

lemma size_adjusted_score_zero: "size_adjusted_score 0 s = 0"
  by (simp add: size_adjusted_score_def)

lemma size_adjusted_score_96: "size_adjusted_score raw 96 = raw"
  by (simp add: size_adjusted_score_def)

lemma sqrt_quarter: "sqrt (1 / 4) = 1 / 2"
  by (simp add: real_sqrt_divide)

lemma size_adjusted_score_24: "size_adjusted_score raw 24 = raw / 2"
  by (simp add: size_adjusted_score_def sqrt_quarter)

lemma scales_24_96: "make_coarse_scales 24 96 = [24, 32, 40, 48, 56, 64, 72, 80, 88, 96]"
  by (simp add: make_coarse_scales_def add_std_size_def coarse_scale_list_step
        coarse_scale_list_stop)

lemma example_possible:
  "search_possible (example_image 200 200) (mk_rect 0 0 200 200) 24 96"
  by (simp add: search_possible_def example_image_def empty_mat_def rect_intersect_def
        mk_rect_def Let_def)

lemma example_search:
  "rect_intersect (mk_rect 0 0 200 200)
     (mk_rect 0 0 (cols (example_image 200 200)) (rows (example_image 200 200)))
   = mk_rect 0 0 200 200"
  by (simp add: rect_intersect_def mk_rect_def example_image_def Let_def)

lemma example_match:
  "match_best (example_ops s g sd ncc) img rect
     (resize (example_ops s g sd ncc) a w h m) = (ncc w, mk_point 0 0)"
  by (simp add: example_ops_def example_alpha_def)














lemmas example_eval = scales_24_96 default_guided_def cancel_requested_def example_match
  example_ncc_def size_adjusted_score_zero size_adjusted_score_96 size_adjusted_score_24
  insert_top_k_def sort_candidates_def fine_scan_stop fine_scan_skip fine_scan_step
  mk_rect_def mk_point_def example_engine_def example_alpha_def


lemma example_cancelled_at_once:
  "guided_detect (example_ops 0 0 (example_stddev 0 0 0) example_ncc) example_engine (example_image 200 200)
     (mk_rect 0 0 200 200) (Some (\<lambda>n. True)) 24 96
   = default_guided\<lparr>total_scales := 10, was_cancelled := True\<rparr>"
  unfolding guided_detect_possible [OF example_possible] example_search Let_def
  by (simp add: example_eval)

lemma example_cancelled_later:
  "guided_detect (example_ops 0 0 (example_stddev 0 0 0) example_ncc) example_engine (example_image 200 200)
     (mk_rect 0 0 200 200) (Some (\<lambda>n. 3 \<le> n)) 24 96
   = default_guided\<lparr>scales_searched := 3, total_scales := 10, was_cancelled := True\<rparr>"
  unfolding guided_detect_possible [OF example_possible] example_search Let_def
  by (simp add: example_eval)

section \<open>Size classification\<close>

text \<open>
  C2. The classifier answers Large exactly when both dimensions are strictly greater than
  1024 and Small in every other case, and \<open>get_watermark_config\<close> draws the same line
  (96-pixel logo with 64-pixel margins against 48-pixel logo with 32-pixel margins);
  a 1024 by 1024 image is Small.
\<close>

theorem size_classifier_strict:
  "(get_watermark_size w h = Large) = (w > 1024 \<and> h > 1024)
   \<and> (get_watermark_size w h = Small) = (\<not> (w > 1024 \<and> h > 1024))
   \<and> (get_watermark_config w h = \<lparr>margin_right = 64, margin_bottom = 64, logo_size = 96\<rparr>)
       = (w > 1024 \<and> h > 1024)
   \<and> (get_watermark_config w h = \<lparr>margin_right = 32, margin_bottom = 32, logo_size = 48\<rparr>)
       = (\<not> (w > 1024 \<and> h > 1024))
   \<and> get_watermark_size 1024 1024 = Small"
  by (simp add: get_watermark_size_def get_watermark_config_def)

text \<open>
  C9 as the specification lists it: (1024, 1024) Small, (1025, 1025) Large, (2000, 500) Small
  and (1025, 2000) Small. The last example fails: 1025 and 2000 both exceed 1024, so the
  classifier answers Large there.
\<close>

theorem size_classifier_examples_counterexample:
  "\<not> (get_watermark_size 1024 1024 = Small
      \<and> get_watermark_size 1025 1025 = Large
      \<and> get_watermark_size 2000 500 = Small
      \<and> get_watermark_size 1025 2000 = Small)"
  by (simp add: get_watermark_size_def)

text \<open>
  C9, amended. The boundary examples of the size classifier: (1024, 1024) is Small,
  (1025, 1025) is Large, (2000, 500) is Small, and (1025, 2000) is Large because both
  sides exceed 1024.
\<close>

theorem size_classifier_examples:
  "get_watermark_size 1024 1024 = Small
   \<and> get_watermark_size 1025 1025 = Large
   \<and> get_watermark_size 2000 500 = Small
   \<and> get_watermark_size 1025 2000 = Large"
  by (simp add: get_watermark_size_def)

section \<open>The detector\<close>




text \<open>
  C10. For every non-empty image the region of the result is the unclamped box: its
  top-left corner comes from the margin rule that \<open>get_watermark_config\<close> selects for the
  image dimensions, and its width and height are those of the selected alpha map. This
  holds on every path, also when the call returns early with confidence 0, so the region
  may lie outside the image.
\<close>

theorem detect_region_unclamped:
  assumes "\<not> empty_mat img"
  shows "region (detect_watermark ops eng img force_size) =
           mk_rect (pt_x (detect_pos img)) (pt_y (detect_pos img))
                   (cols (detect_alpha eng img force_size))
                   (rows (detect_alpha eng img force_size))"
  using assms by (simp add: detect_watermark_def Let_def)

text \<open>The theorem at a 10 by 10 image: the box does not meet the image, the confidence
  is 0 and the region is reported at (-70, -70).\<close>

theorem detect_region_unclamped_witness:
  "\<not> empty_mat (example_image 10 10)
   \<and> roi_out_of_bounds example_engine (example_image 10 10) None
   \<and> region (detect_watermark (example_ops 0 0 (example_stddev 0 0 0) example_ncc) example_engine
               (example_image 10 10) None) = mk_rect (- 70) (- 70) 48 48
   \<and> confidence (detect_watermark (example_ops 0 0 (example_stddev 0 0 0) example_ncc) example_engine
               (example_image 10 10) None) = 0"
  using detect_region_unclamped [of "example_image 10 10" "example_ops 0 0 (example_stddev 0 0 0) example_ncc"
      example_engine None]
  by (simp add: example_defs roi_defs empty_mat_def detect_watermark_def default_result_def)




text \<open>
  C8. The claim is that a forced size decides both the side and the position of the box
  that \<open>detect_watermark\<close> scores and reports. The code takes the side from the forced
  size but the position from \<open>get_watermark_config\<close> of the image dimensions: on a
  2000 by 2000 image with Small forced, the reported region and the scored box are the
  48-pixel square at (1840, 1840), the corner of the Large margin rule, while the Small
  margin rule, which \<open>remove_watermark\<close> uses for the same arguments, gives (1920, 1920).
\<close>

theorem detect_forced_small_on_large_image:
  "region (detect_watermark (example_ops 1 1 (example_stddev 0 0 0) example_ncc) example_engine
             (example_image 2000 2000) (Some Small)) = mk_rect 1840 1840 48 48
   \<and> image_roi example_engine (example_image 2000 2000) (Some Small) = mk_rect 1840 1840 48 48
   \<and> get_position (config_of_size Small) 2000 2000 = mk_point 1920 1920
   \<and> mk_rect 1840 1840 48 48 \<noteq> mk_rect 1920 1920 48 48"
  by (simp add: example_defs roi_defs empty_mat_def detect_watermark_def config_of_size_def Let_def)

text \<open>
  C5. \<open>remove_watermark\<close> and \<open>add_watermark\<close> raise exactly on an empty image, where the
  blend transforms are total; \<open>detect_watermark\<close> has no error result at all: on an empty
  image it returns the zero-initialised result, and when the clamped box is empty it
  returns confidence 0, detected false and all three stage scores 0.
\<close>

theorem empty_image_policy:
  "(remove_watermark ops eng img force_size = Inl EmptyImage) = empty_mat img
   \<and> isl (remove_watermark ops eng img force_size) = empty_mat img
   \<and> (add_watermark ops eng img force_size = Inl EmptyImage) = empty_mat img
   \<and> isl (add_watermark ops eng img force_size) = empty_mat img
   \<and> (empty_mat img \<or> roi_out_of_bounds eng img force_size \<longrightarrow>
        (let r = detect_watermark ops eng img force_size
         in \<not> detected r \<and> confidence r = 0 \<and> spatial_score r = 0
            \<and> gradient_score r = 0 \<and> variance_score r = 0))
   \<and> (empty_mat img \<longrightarrow> detect_watermark ops eng img force_size = default_result)"
  by (simp add: remove_watermark_def add_watermark_def detect_watermark_def Let_def
        default_result_def)

text \<open>The theorem on the empty image and on a 10 by 10 image, whose box lies outside.\<close>

theorem empty_image_policy_witness:
  "empty_mat (example_image 0 0)
   \<and> remove_watermark (example_ops 1 1 (example_stddev 0 0 0) example_ncc) example_engine (example_image 0 0) None
       = Inl EmptyImage
   \<and> add_watermark (example_ops 1 1 (example_stddev 0 0 0) example_ncc) example_engine (example_image 0 0) None
       = Inl EmptyImage
   \<and> detect_watermark (example_ops 1 1 (example_stddev 0 0 0) example_ncc) example_engine (example_image 0 0) None
       = default_result
   \<and> \<not> empty_mat (example_image 10 10)
   \<and> roi_out_of_bounds example_engine (example_image 10 10) None
   \<and> \<not> isl (remove_watermark (example_ops 1 1 (example_stddev 0 0 0) example_ncc) example_engine
               (example_image 10 10) None)
   \<and> confidence (detect_watermark (example_ops 1 1 (example_stddev 0 0 0) example_ncc) example_engine
                   (example_image 10 10) None) = 0"
proof -
  let ?ops = "example_ops 1 1 (example_stddev 0 0 0) example_ncc"
  have e: "empty_mat (example_image 0 0)" by (simp add: example_defs empty_mat_def)
  have ne: "\<not> empty_mat (example_image 10 10)" by (simp add: example_defs empty_mat_def)
  have oob: "roi_out_of_bounds example_engine (example_image 10 10) None"
    by (simp add: example_defs roi_defs)
  show ?thesis
    using e ne oob
      empty_image_policy [of ?ops example_engine "example_image 0 0" None]
      empty_image_policy [of ?ops example_engine "example_image 10 10" None]
    by (simp add: Let_def)
qed

section \<open>Custom regions\<close>

text \<open>
  C4. A custom region of exactly 48 by 48 placed where the Small margin rule puts the box
  gives the same outcome as \<open>remove_watermark\<close> with Small forced, and a 96 by 96 region at
  the Large position the same as Large forced: the custom path hands the precomputed
  small or large alpha map to the blend, not an interpolated one.
\<close>

theorem custom_standard_size_equivalence:
  assumes "mk_point px py = get_position (config_of_size Small) (cols img) (rows img)"
    and "mk_point qx qy = get_position (config_of_size Large) (cols img) (rows img)"
  shows "remove_watermark_custom ops eng img (mk_rect px py 48 48)
           = remove_watermark ops eng img (Some Small)
         \<and> remove_watermark_custom ops eng img (mk_rect qx qy 96 96)
           = remove_watermark ops eng img (Some Large)
         \<and> remove_watermark_custom ops eng img (mk_rect px py 48 48)
           = (if empty_mat img then Inl EmptyImage
              else Inr (remove_watermark_alpha_blend ops (ensure_bgr img) (alpha_map_small eng)
                          (mk_point px py) (logo_value eng)))
         \<and> remove_watermark_custom ops eng img (mk_rect qx qy 96 96)
           = (if empty_mat img then Inl EmptyImage
              else Inr (remove_watermark_alpha_blend ops (ensure_bgr img) (alpha_map_large eng)
                          (mk_point qx qy) (logo_value eng)))"
  using assms
  by (simp add: remove_watermark_custom_def remove_watermark_def Let_def ensure_bgr_dims
        get_alpha_map_def mk_rect_def)

text \<open>The theorem on a 200 by 200 image, with the boxes at (120, 120) and (40, 40).\<close>

theorem custom_standard_size_equivalence_witness:
  "mk_point 120 120 = get_position (config_of_size Small) (cols (example_image 200 200))
                         (rows (example_image 200 200))
   \<and> mk_point 40 40 = get_position (config_of_size Large) (cols (example_image 200 200))
                         (rows (example_image 200 200))
   \<and> remove_watermark_custom (example_ops 1 1 (example_stddev 0 0 0) example_ncc) example_engine
        (example_image 200 200) (mk_rect 120 120 48 48)
       = remove_watermark (example_ops 1 1 (example_stddev 0 0 0) example_ncc) example_engine
           (example_image 200 200) (Some Small)
   \<and> remove_watermark_custom (example_ops 1 1 (example_stddev 0 0 0) example_ncc) example_engine
        (example_image 200 200) (mk_rect 40 40 96 96)
       = remove_watermark (example_ops 1 1 (example_stddev 0 0 0) example_ncc) example_engine
           (example_image 200 200) (Some Large)"
proof -
  have p: "mk_point 120 120 = get_position (config_of_size Small) (cols (example_image 200 200))
                         (rows (example_image 200 200))"
    and q: "mk_point 40 40 = get_position (config_of_size Large) (cols (example_image 200 200))
                         (rows (example_image 200 200))"
    by (simp_all add: get_position_def config_of_size_def example_image_def)
  show ?thesis
    using p q custom_standard_size_equivalence [OF p q, of "example_ops 1 1 (example_stddev 0 0 0) example_ncc" example_engine]
    by simp
qed

section \<open>The guided search\<close>

text \<open>
  C6. For a search that is possible (non-empty image, search rectangle of at least 8 by 8
  after clamping, size range not inverted), the scale list is not empty and the flag is
  loaded at the start of every coarse iteration: if the first load reads true, the result
  has \<open>was_cancelled\<close> set, \<open>found\<close> false and \<open>scales_searched = 0 < total_scales\<close>; and
  whenever the first \<open>k\<close> loads read false and the next reads true, with \<open>k\<close> below
  \<open>total_scales\<close>, the result has \<open>was_cancelled\<close> set and \<open>scales_searched = k\<close>, short
  of \<open>total_scales\<close>.
\<close>

theorem guided_detect_cancellation:
  assumes "search_possible img search_rect min_size max_size"
  shows "let r = guided_detect ops eng img search_rect (Some f) min_size max_size
         in 0 < total_scales r
            \<and> (f 0 \<longrightarrow> was_cancelled r \<and> \<not> found r \<and> scales_searched r = 0
                        \<and> scales_searched r < total_scales r)
            \<and> (\<forall>k. (\<forall>j<k. \<not> f j) \<and> f k \<and> int k < total_scales r \<longrightarrow>
                      was_cancelled r \<and> scales_searched r = int k
                      \<and> scales_searched r < total_scales r)"
proof -
  define search where "search = rect_intersect search_rect (mk_rect 0 0 (cols img) (rows img))"
  define mn where "mn = max min_size 16"
  define mx where "mx = min max_size (min (rect_width search) (rect_height search))"
  define scales where "scales = make_coarse_scales mn mx"
  define res0 where "res0 = default_guided\<lparr>total_scales := int (length scales)\<rparr>"
  define best0 where "best0 = \<lparr>position = mk_point 0 0, scale = 0, raw_score = - 1 :: real,
                                adjusted_score = - 1 :: real\<rparr>"
  define finish where "finish = (\<lambda>(result :: GuidedDetectionResult, best :: Candidate, n :: nat).
      if adjusted_score best > 0.08 then
        result\<lparr>found := True, g_confidence := adjusted_score best, raw_ncc := raw_score best,
               match_rect := mk_rect (rect_x search + pt_x (position best))
                                     (rect_y search + pt_y (position best))
                                     (scale best) (scale best),
               detected_size := scale best\<rparr>
      else result)"
  let ?r = "guided_detect ops eng img search_rect (Some f) min_size max_size"
  have unfold: "?r = (case coarse_search ops img search (alpha_map_large eng) (Some f) scales
                             (res0, [], 0) of
                        (result, cands, n) \<Rightarrow>
                          if cands = [] then result
                          else finish (fine_search ops img search (alpha_map_large eng) (Some f)
                                         mn mx cands (result, best0, n)))"
    unfolding guided_detect_possible [OF assms] Let_def search_def mn_def mx_def scales_def
      res0_def best0_def finish_def
    by (simp split: prod.splits)
  have "mn \<le> mx"
    using assms unfolding search_possible_def Let_def mn_def mx_def search_def
    by (simp add: not_less)
  then have ne: "scales \<noteq> []"
    unfolding scales_def by (rule make_coarse_scales_nonempty)
  have after_fine:
    "let out = finish (fine_search ops img search (alpha_map_large eng) (Some f) mn mx cands
                         (res, best0, n))
     in scales_searched out = scales_searched res \<and> total_scales out = total_scales res
        \<and> (was_cancelled res \<longrightarrow> was_cancelled out)" for res cands n
    using fine_search_preserves [of ops img search "alpha_map_large eng" "Some f" mn mx cands
        res best0 n]
    by (auto simp: finish_def Let_def)
  have total: "total_scales ?r = int (length scales)"
  proof -
    obtain res cands n where cs:
      "coarse_search ops img search (alpha_map_large eng) (Some f) scales (res0, [], 0)
         = (res, cands, n)"
      by (metis prod_cases3)
    have "total_scales res = int (length scales)"
      using coarse_search_total [of ops img search "alpha_map_large eng" "Some f" scales
          "(res0, [], 0)"] cs
      by (simp add: res0_def)
    then show ?thesis
      using after_fine [where res = res and cands = cands and n = n] by (simp add: unfold cs Let_def)
  qed
  have at_k: "was_cancelled ?r \<and> scales_searched ?r = int k \<and> (k = 0 \<longrightarrow> \<not> found ?r)"
    if k: "\<forall>j<k. \<not> f j" "f k" "int k < total_scales ?r" for k
  proof -
    have len: "k < length scales" using k(3) total by simp
    from coarse_search_cancel [of k scales f 0 ops img search "alpha_map_large eng" res0 "[]"]
      len k(1,2)
    obtain res cands n where cs:
      "coarse_search ops img search (alpha_map_large eng) (Some f) scales (res0, [], 0)
         = (res, cands, n)"
      and props: "was_cancelled res" "scales_searched res = scales_searched res0 + int k"
        "found res = found res0" "k = 0 \<longrightarrow> cands = [] \<and> res = res0\<lparr>was_cancelled := True\<rparr>"
      by auto
    have zero: "scales_searched res0 = 0" "\<not> found res0"
      by (simp_all add: res0_def default_guided_def)
    show ?thesis
      using after_fine [where res = res and cands = cands and n = n] props zero
      by (auto simp: unfold cs Let_def)
  qed
  have pos: "0 < total_scales ?r" using total ne by simp
  have first: "was_cancelled ?r \<and> \<not> found ?r \<and> scales_searched ?r = 0
               \<and> scales_searched ?r < total_scales ?r" if "f 0"
    using at_k [of 0] that pos by simp
  have later: "was_cancelled ?r \<and> scales_searched ?r = int k
               \<and> scales_searched ?r < total_scales ?r"
    if "(\<forall>j<k. \<not> f j) \<and> f k \<and> int k < total_scales ?r" for k
    using at_k [of k] that by simp
  show ?thesis
    unfolding Let_def using pos first later by blast
qed

text \<open>The theorem on a 200 by 200 image searched in full with sizes 24 to 96 (ten coarse
  scales): with the flag set from the start no scale is searched, with the flag set after
  three loads three scales are.\<close>

theorem guided_detect_cancellation_witness:
  "search_possible (example_image 200 200) (mk_rect 0 0 200 200) 24 96
   \<and> (let r = guided_detect (example_ops 0 0 (example_stddev 0 0 0) example_ncc) example_engine
                 (example_image 200 200) (mk_rect 0 0 200 200) (Some (\<lambda>n. True)) 24 96
      in was_cancelled r \<and> \<not> found r \<and> scales_searched r = 0 \<and> total_scales r = 10)
   \<and> (let r = guided_detect (example_ops 0 0 (example_stddev 0 0 0) example_ncc) example_engine
                 (example_image 200 200) (mk_rect 0 0 200 200) (Some (\<lambda>n. 3 \<le> n)) 24 96
      in was_cancelled r \<and> scales_searched r = 3 \<and> total_scales r = 10)"
proof -
  let ?ops = "example_ops 0 0 (example_stddev 0 0 0) example_ncc"
  let ?img = "example_image 200 200"
  let ?rect = "mk_rect 0 0 200 200"
  let ?r0 = "guided_detect ?ops example_engine ?img ?rect (Some (\<lambda>n. True)) 24 96"
  let ?r3 = "guided_detect ?ops example_engine ?img ?rect (Some (\<lambda>n. 3 \<le> n)) 24 96"
  note possible = example_possible
  have t0: "total_scales ?r0 = 10" by (simp add: example_cancelled_at_once)
  have t3: "total_scales ?r3 = 10" by (simp add: example_cancelled_later)
  have "was_cancelled ?r0 \<and> \<not> found ?r0 \<and> scales_searched ?r0 = 0"
    using guided_detect_cancellation [OF possible, of ?ops example_engine "\<lambda>n. True"]
    by (simp add: Let_def)
  moreover have "was_cancelled ?r3 \<and> scales_searched ?r3 = 3"
  proof -
    have "(\<forall>j<3. \<not> (3::nat) \<le> j) \<and> (3::nat) \<le> 3 \<and> int 3 < total_scales ?r3"
      by (simp add: t3)
    with guided_detect_cancellation [OF possible, of ?ops example_engine "\<lambda>n. 3 \<le> n"]
    show ?thesis unfolding Let_def by (metis of_nat_numeral)
  qed
  ultimately show ?thesis using possible t0 t3 by (simp add: Let_def)
qed



end
